theory Spec2Isabelle
  imports Main
begin

section \<open>The declaration file \<^verbatim>\<open>types/lib/sequelize.d.ts\<close>\<close>

text \<open>
  The source is a TypeScript declaration file: interfaces, type aliases, one class
  declaration and function signatures. It has no function that computes, so the object
  of study is the declarations themselves. They are transcribed below, member by member
  and in the order of the file, into a syntax tree of TypeScript type expressions; the
  properties are then statements about that tree.
\<close>

subsection \<open>Type expressions\<close>

datatype ts_type =
    TString | TNumber | TBoolean | TVoid | TUndefined | TNull | TUnknown | TObject | TThis
  | TLit string                       \<comment> \<open>a string literal type, \<^verbatim>\<open>'tcp'\<close>\<close>
  | TVar string                       \<comment> \<open>a type parameter in scope, \<^verbatim>\<open>T\<close>\<close>
  | TRef string "ts_type list"        \<comment> \<open>a named type with its arguments, \<^verbatim>\<open>Promise<void>\<close>\<close>
  | TTypeof string                    \<comment> \<open>\<^verbatim>\<open>typeof Model\<close>\<close>
  | TArray ts_type                    \<comment> \<open>\<^verbatim>\<open>T[]\<close>\<close>
  | TTuple "ts_type list"             \<comment> \<open>\<^verbatim>\<open>[undefined, number]\<close>\<close>
  | TUnion "ts_type list"             \<comment> \<open>\<^verbatim>\<open>A | B\<close>, members in written order\<close>
  | TFun "ts_param list" ts_type      \<comment> \<open>\<^verbatim>\<open>(t: Transaction) => R\<close>\<close>
  | TObj "ts_field list"              \<comment> \<open>an object literal type\<close>
  | TIndexed ts_type                  \<comment> \<open>\<^verbatim>\<open>{ [key: string]: T }\<close>\<close>
and ts_param =
    Param (pname: string) (poptional: bool) (prest: bool) (ptype: ts_type)
and ts_field =
    Field (fname: string) (freadonly: bool) (foptional: bool) (ftype: ts_type)

text \<open>Shorthands for the parameter forms \<^verbatim>\<open>x: T\<close>, \<^verbatim>\<open>x?: T\<close> and \<^verbatim>\<open>...x: T\<close>.\<close>

definition req :: "string \<Rightarrow> ts_type \<Rightarrow> ts_param" where
  "req n t = Param n False False t"

definition opt :: "string \<Rightarrow> ts_type \<Rightarrow> ts_param" where
  "opt n t = Param n True False t"

definition rest :: "string \<Rightarrow> ts_type \<Rightarrow> ts_param" where
  "rest n t = Param n False True t"

definition Promise :: "ts_type \<Rightarrow> ts_type" where
  "Promise t = TRef ''Promise'' [t]"

definition QueryOptionsWithType :: "string \<Rightarrow> ts_type" where
  "QueryOptionsWithType k = TRef ''QueryOptionsWithType'' [TRef (''QueryTypes.'' @ k) []]"

subsection \<open>Members and declarations\<close>

datatype member_kind = Property | Method | Constructor

text \<open>
  One member of an interface or class, or one top-level function signature. \<open>mtype\<close> is
  the type of a property and the return type of a method; \<open>mbody\<close> is the text of the
  implementation when the member carries one.
\<close>

record member =
  mname :: string
  mkind :: member_kind
  mstatic :: bool
  mreadonly :: bool
  moptional :: bool
  mtparams :: "(string \<times> ts_type option) list"
  mparams :: "ts_param list"
  mtype :: ts_type
  mbody :: "string option"

text \<open>
  Shorthands for the member forms of a declaration file, none of which has a body:
  \<^verbatim>\<open>name: T\<close> and \<^verbatim>\<open>name?: T\<close> (\<open>property\<close>, the flag says optional), the same with
  \<^verbatim>\<open>readonly\<close> (\<open>ro_property\<close>), \<^verbatim>\<open>public static name: T\<close> (\<open>static_property\<close>),
  \<^verbatim>\<open>name(params): R\<close> (\<open>meth\<close>), \<^verbatim>\<open>name<T extends B>(params): R\<close> (\<open>gmeth\<close>) and
  \<^verbatim>\<open>constructor(params)\<close> (\<open>ctor\<close>).
\<close>

definition property :: "string \<Rightarrow> bool \<Rightarrow> ts_type \<Rightarrow> member" where
  "property n q t = \<lparr>mname = n, mkind = Property, mstatic = False, mreadonly = False,
     moptional = q, mtparams = [], mparams = [], mtype = t, mbody = None\<rparr>"

definition ro_property :: "string \<Rightarrow> bool \<Rightarrow> ts_type \<Rightarrow> member" where
  "ro_property n q t = (property n q t)\<lparr>mreadonly := True\<rparr>"

definition static_property :: "string \<Rightarrow> ts_type \<Rightarrow> member" where
  "static_property n t = (property n False t)\<lparr>mstatic := True\<rparr>"

definition meth :: "string \<Rightarrow> ts_param list \<Rightarrow> ts_type \<Rightarrow> member" where
  "meth n ps r = \<lparr>mname = n, mkind = Method, mstatic = False, mreadonly = False,
     moptional = False, mtparams = [], mparams = ps, mtype = r, mbody = None\<rparr>"

definition gmeth ::
  "string \<Rightarrow> (string \<times> ts_type option) list \<Rightarrow> ts_param list \<Rightarrow> ts_type \<Rightarrow> member" where
  "gmeth n tps ps r = (meth n ps r)\<lparr>mtparams := tps\<rparr>"

definition static_meth :: "string \<Rightarrow> ts_param list \<Rightarrow> ts_type \<Rightarrow> member" where
  "static_meth n ps r = (meth n ps r)\<lparr>mstatic := True\<rparr>"

definition ctor :: "ts_param list \<Rightarrow> member" where
  "ctor ps = \<lparr>mname = ''constructor'', mkind = Constructor, mstatic = False,
     mreadonly = False, moptional = False, mtparams = [], mparams = ps, mtype = TThis,
     mbody = None\<rparr>"

datatype decl =
    Import string "string list"                 \<comment> \<open>module path, names bound\<close>
  | Interface string "string list" "member list"  \<comment> \<open>name, \<^verbatim>\<open>extends\<close>, members\<close>
  | TypeAlias string ts_type
  | ClassDecl string "string list" "member list"
  | FunctionSig member
  | ExportDefault string
  | Statement string                            \<comment> \<open>any other top-level statement, as text\<close>

subsection \<open>The configuration interfaces (lines 35 to 139)\<close>

definition SyncOptions :: "member list" where
  "SyncOptions =
    [property ''force'' True TBoolean,
     property ''match'' True (TRef ''RegExp'' []),
     property ''schema'' True TString]"

definition DefaultSetOptions :: "member list" where
  "DefaultSetOptions = []"

definition PoolOptions :: "member list" where
  "PoolOptions =
    [property ''max'' True TNumber,
     property ''min'' True TNumber,
     property ''idle'' True TNumber,
     property ''acquire'' True TNumber,
     (meth ''validate'' [opt ''client'' TUnknown] TBoolean)\<lparr>moptional := True\<rparr>]"

definition ConnectionOptions :: "member list" where
  "ConnectionOptions =
    [property ''host'' True TString,
     property ''port'' True (TUnion [TString, TNumber]),
     property ''username'' True TString,
     property ''password'' True TString,
     property ''database'' True TString]"

definition ReplicationOptions :: "member list" where
  "ReplicationOptions =
    [property ''read'' False (TArray (TRef ''ConnectionOptions'' [])),
     property ''write'' False (TRef ''ConnectionOptions'' [])]"

definition Config :: "member list" where
  "Config =
    [ro_property ''database'' False TString,
     ro_property ''dialectModule'' True TObject,
     ro_property ''host'' True TString,
     ro_property ''port'' True TString,
     ro_property ''username'' False TString,
     ro_property ''password'' False (TUnion [TString, TNull]),
     ro_property ''pool'' True (TObj
       [Field ''acquire'' True False TNumber,
        Field ''idle'' True False TNumber,
        Field ''max'' True False TNumber,
        Field ''min'' True False TNumber]),
     ro_property ''protocol'' False (TLit ''tcp''),
     ro_property ''native'' False TBoolean,
     ro_property ''ssl'' False TBoolean,
     ro_property ''replication'' False TBoolean,
     ro_property ''dialectModulePath'' False (TUnion [TNull, TString]),
     ro_property ''keepDefaultTimezone'' True TBoolean,
     ro_property ''dialectOptions'' True (TObj
       [Field ''charset'' True True TString,
        Field ''timeout'' True True TNumber])]"

definition Dialect :: ts_type where
  "Dialect = TUnion [TLit ''mysql'', TLit ''postgres'', TLit ''sqlite'', TLit ''mariadb'',
     TLit ''mssql'', TLit ''mariadb'']"

definition RetryOptions :: "member list" where
  "RetryOptions =
    [property ''match'' True
       (TArray (TUnion [TRef ''RegExp'' [], TString, TRef ''Function'' []])),
     property ''max'' True TNumber]"

subsection \<open>Constructor options (lines 141 to 319)\<close>

definition Options :: "member list" where
  "Options =
    [property ''dialect'' True (TRef ''Dialect'' []),
     property ''dialectModule'' True TObject,
     property ''dialectModulePath'' True TString,
     property ''dialectOptions'' True TObject,
     property ''storage'' True TString,
     property ''database'' True TString,
     property ''username'' True TString,
     property ''password'' True TString,
     property ''host'' True TString,
     property ''port'' True TNumber,
     property ''ssl'' True TBoolean,
     property ''protocol'' True TString,
     property ''define'' True (TRef ''ModelOptions'' []),
     property ''query'' True (TRef ''QueryOptions'' []),
     property ''set'' True (TRef ''DefaultSetOptions'' []),
     property ''sync'' True (TRef ''SyncOptions'' []),
     property ''timezone'' True TString,
     property ''omitNull'' True TBoolean,
     property ''native'' True TBoolean,
     property ''replication'' True (TRef ''ReplicationOptions'' []),
     property ''pool'' True (TRef ''PoolOptions'' []),
     property ''quoteIdentifiers'' True TBoolean,
     property ''isolationLevel'' True TString,
     property ''typeValidation'' True TBoolean,
     property ''standardConformingStrings'' True TBoolean,
     property ''hooks'' True (TRef ''Partial'' [TRef ''SequelizeHooks'' []]),
     property ''retry'' True (TRef ''RetryOptions'' [])]"

definition QueryOptionsTransactionRequired :: "member list" where
  "QueryOptionsTransactionRequired = []"

subsection \<open>The class \<^verbatim>\<open>Sequelize\<close> (lines 333 to 798)\<close>

text \<open>The first parameter of every \<^verbatim>\<open>query\<close> overload.\<close>

definition sql_param :: ts_param where
  "sql_param = req ''sql'' (TUnion [TString,
     TObj [Field ''query'' False False TString,
           Field ''values'' False False (TArray TUnknown)]])"

text \<open>The eleven overloads of \<^verbatim>\<open>query\<close>, lines 613 to 635, in declaration order.\<close>

definition query_overloads :: "member list" where
  "query_overloads =
    [meth ''query'' [sql_param, req ''options'' (QueryOptionsWithType ''UPDATE'')]
       (Promise (TTuple [TUndefined, TNumber])),
     meth ''query'' [sql_param, req ''options'' (QueryOptionsWithType ''BULKUPDATE'')]
       (Promise TNumber),
     meth ''query'' [sql_param, req ''options'' (QueryOptionsWithType ''INSERT'')]
       (Promise (TTuple [TNumber, TNumber])),
     meth ''query'' [sql_param, req ''options'' (QueryOptionsWithType ''UPSERT'')]
       (Promise TNumber),
     meth ''query'' [sql_param, req ''options'' (QueryOptionsWithType ''DELETE'')]
       (Promise TVoid),
     meth ''query'' [sql_param, req ''options'' (QueryOptionsWithType ''BULKDELETE'')]
       (Promise TNumber),
     meth ''query'' [sql_param, req ''options'' (QueryOptionsWithType ''SHOWTABLES'')]
       (Promise (TArray TString)),
     meth ''query'' [sql_param, req ''options'' (QueryOptionsWithType ''DESCRIBE'')]
       (Promise (TIndexed (TObj
          [Field ''type'' False False TString,
           Field ''allowNull'' False False TBoolean,
           Field ''defaultValue'' False False TString,
           Field ''primaryKey'' False False TBoolean,
           Field ''autoIncrement'' False False TBoolean,
           Field ''comment'' False False (TUnion [TString, TNull])]))),
     gmeth ''query'' [(''M'', Some (TRef ''Model'' []))]
       [sql_param, req ''options'' (TRef ''QueryOptionsWithModel'' [])]
       (Promise (TArray (TVar ''M''))),
     gmeth ''query'' [(''T'', Some TObject)]
       [sql_param, req ''options'' (QueryOptionsWithType ''SELECT'')]
       (Promise (TArray (TVar ''T''))),
     meth ''query''
       [sql_param,
        opt ''options'' (TUnion [TRef ''QueryOptions'' [], QueryOptionsWithType ''RAW''])]
       (Promise (TArray TUnknown))]"

text \<open>The three overloads of \<^verbatim>\<open>transaction\<close>, lines 781 to 783.\<close>

definition autoCallback :: "ts_param" where
  "autoCallback = req ''autoCallback''
     (TFun [req ''t'' (TRef ''Transaction'' [])] (TRef ''PromiseLike'' [TVar ''T'']))"

definition transaction_overloads :: "member list" where
  "transaction_overloads =
    [gmeth ''transaction'' [(''T'', None)]
       [req ''options'' (TRef ''TransactionOptions'' []), autoCallback]
       (Promise (TVar ''T'')),
     gmeth ''transaction'' [(''T'', None)] [autoCallback] (Promise (TVar ''T'')),
     meth ''transaction'' [opt ''options'' (TRef ''TransactionOptions'' [])]
       (Promise (TRef ''Transaction'' []))]"

definition Sequelize :: "member list" where
  "Sequelize =
    [static_property ''fn'' (TTypeof ''fn''),
     static_property ''col'' (TTypeof ''col''),
     static_property ''cast'' (TTypeof ''cast''),
     static_property ''literal'' (TTypeof ''literal''),
     static_property ''and'' (TTypeof ''and''),
     static_property ''or'' (TTypeof ''or''),
     static_property ''json'' (TTypeof ''json''),
     static_property ''where'' (TTypeof ''where''),
     static_meth ''useCLS'' [req ''namespace'' TObject] (TTypeof ''Sequelize''),
     property ''Sequelize'' False (TTypeof ''Sequelize''),
     ro_property ''config'' False (TRef ''Config'' []),
     ro_property ''modelManager'' False (TRef ''ModelManager'' []),
     ro_property ''connectionManager'' False (TRef ''ConnectionManager'' []),
     ro_property ''models'' False (TIndexed (TTypeof ''Model'')),
     ctor [req ''database'' TString, req ''username'' TString, opt ''password'' TString,
           opt ''options'' (TRef ''Options'' [])],
     ctor [req ''database'' TString, req ''username'' TString,
           opt ''options'' (TRef ''Options'' [])],
     ctor [opt ''options'' (TRef ''Options'' [])],
     ctor [req ''uri'' TString, opt ''options'' (TRef ''Options'' [])],
     meth ''getDialect'' [] TString,
     meth ''getQueryInterface'' [] (TRef ''QueryInterface'' []),
     meth ''define''
       [req ''modelName'' TString, req ''attributes'' (TRef ''ModelAttributes'' []),
        opt ''options'' (TRef ''ModelOptions'' [])]
       (TTypeof ''Model''),
     meth ''model'' [req ''modelName'' TString] (TTypeof ''Model''),
     meth ''isDefined'' [req ''modelName'' TString] TBoolean,
     gmeth ''import'' [(''T'', Some (TTypeof ''Model''))]
       [req ''path'' TString,
        opt ''defineFunction''
          (TFun [req ''sequelize'' (TRef ''Sequelize'' []),
                 req ''dataTypes'' (TTypeof ''DataTypes'')] (TVar ''T''))]
       (TVar ''T'')]
    @ query_overloads @
    [meth ''random'' [] (TRef ''Fn'' []),
     meth ''set''
       [req ''variables'' TObject,
        req ''options'' (TRef ''QueryOptionsTransactionRequired'' [])]
       (Promise TUnknown),
     meth ''escape'' [req ''value'' (TUnion [TString, TNumber, TRef ''Date'' []])] TString,
     meth ''createSchema'' [req ''schema'' TString, req ''options'' (TRef ''Logging'' [])]
       (Promise TUnknown),
     meth ''showAllSchemas'' [req ''options'' (TRef ''Logging'' [])]
       (Promise (TArray TObject)),
     meth ''dropSchema'' [req ''schema'' TString, req ''options'' (TRef ''Logging'' [])]
       (Promise (TArray TUnknown)),
     meth ''dropAllSchemas'' [req ''options'' (TRef ''Logging'' [])]
       (Promise (TArray TUnknown)),
     meth ''sync'' [opt ''options'' (TRef ''SyncOptions'' [])] (Promise TThis),
     meth ''truncate'' [opt ''options'' (TRef ''DestroyOptions'' [])]
       (Promise (TArray TUnknown)),
     meth ''drop'' [opt ''options'' (TRef ''DropOptions'' [])] (Promise (TArray TUnknown)),
     meth ''authenticate'' [opt ''options'' (TRef ''QueryOptions'' [])] (Promise TVoid),
     meth ''validate'' [opt ''options'' (TRef ''QueryOptions'' [])] (Promise TVoid)]
    @ transaction_overloads @
    [meth ''close'' [] (Promise TVoid),
     meth ''databaseVersion'' [] (Promise TString)]"

subsection \<open>Exported function signatures and aliases (lines 800 to 890)\<close>

definition where_arg :: ts_type where
  "where_arg = TUnion [TRef ''WhereOperators'' [], TRef ''WhereAttributeHash'' [],
     TRef ''Where'' []]"

definition AttributeType :: ts_type where
  "AttributeType = TUnion [TRef ''Fn'' [], TRef ''Col'' [], TRef ''Literal'' [],
     TRef ''ModelAttributeColumnOptions'' [], TString]"

definition LogicType :: ts_type where
  "LogicType = TUnion [TRef ''Fn'' [], TRef ''Col'' [], TRef ''Literal'' [],
     TRef ''OrOperator'' [], TRef ''AndOperator'' [], TRef ''WhereOperators'' [], TString]"

definition exported_functions :: "member list" where
  "exported_functions =
    [meth ''fn'' [req ''fn'' TString, rest ''args'' (TArray TUnknown)] (TRef ''Fn'' []),
     meth ''col'' [req ''col'' TString] (TRef ''Col'' []),
     meth ''cast'' [req ''val'' TUnknown, req ''type'' TString] (TRef ''Cast'' []),
     meth ''literal'' [req ''val'' TString] (TRef ''Literal'' []),
     meth ''and'' [rest ''args'' (TArray where_arg)] (TRef ''AndOperator'' []),
     meth ''or'' [rest ''args'' (TArray where_arg)] (TRef ''OrOperator'' []),
     meth ''json''
       [req ''conditionsOrPath'' (TUnion [TString, TObject]),
        opt ''value'' (TUnion [TString, TNumber, TBoolean])]
       (TRef ''Json'' []),
     meth ''where''
       [req ''attr'' (TRef ''AttributeType'' []), req ''comparator'' TString,
        req ''logic'' (TRef ''LogicType'' [])]
       (TRef ''Where'' []),
     meth ''where''
       [req ''attr'' (TRef ''AttributeType'' []), req ''logic'' (TRef ''LogicType'' [])]
       (TRef ''Where'' [])]"

subsection \<open>The whole file, top to bottom\<close>

definition imports_decls :: "decl list" where
  "imports_decls =
    [Import ''./data-types'' [''DataTypes''],
     Import ''./deferrable'' [''Deferrable''],
     Import ''./hooks'' [''HookReturn'', ''SequelizeHooks'', ''SequelizeHooksBase''],
     Import ''./instance-validator'' [''ValidationOptions''],
     Import ''./model''
       [''AndOperator'', ''BulkCreateOptions'', ''CreateOptions'', ''DestroyOptions'',
        ''DropOptions'', ''FindOptions'', ''InstanceDestroyOptions'', ''Logging'', ''Model'',
        ''ModelAttributeColumnOptions'', ''ModelAttributes'', ''ModelOptions'',
        ''OrOperator'', ''UpdateOptions'', ''WhereAttributeHash'', ''WhereOperators''],
     Import ''./model-manager'' [''ModelManager''],
     Import ''./operators'' [''Op''],
     Import ''./promise'' [''Promise''],
     Import ''./query-interface''
       [''QueryInterface'', ''QueryOptions'', ''QueryOptionsWithModel'',
        ''QueryOptionsWithType''],
     Import ''./query-types'' [''QueryTypes''],
     Import ''./transaction'' [''Transaction'', ''TransactionOptions''],
     Import ''./utils'' [''Cast'', ''Col'', ''Fn'', ''Json'', ''Literal'', ''Where''],
     Import ''./utils'' [''Utils''],
     Import ''./utils/validator-extras'' [''validator''],
     Import ''./connection-manager'' [''ConnectionManager'']]"

definition sequelize_d_ts :: "decl list" where
  "sequelize_d_ts = imports_decls @
    [Interface ''SyncOptions'' [''Logging''] SyncOptions,
     Interface ''DefaultSetOptions'' [] DefaultSetOptions,
     Interface ''PoolOptions'' [] PoolOptions,
     Interface ''ConnectionOptions'' [] ConnectionOptions,
     Interface ''ReplicationOptions'' [] ReplicationOptions,
     Interface ''Config'' [] Config,
     TypeAlias ''Dialect'' Dialect,
     Interface ''RetryOptions'' [] RetryOptions,
     Interface ''Options'' [''Logging''] Options,
     Interface ''QueryOptionsTransactionRequired'' [] QueryOptionsTransactionRequired,
     ClassDecl ''Sequelize'' [''SequelizeHooksBase''] Sequelize]
    @ map FunctionSig (take 7 exported_functions) @
    [TypeAlias ''AttributeType'' AttributeType,
     TypeAlias ''LogicType'' LogicType]
    @ map FunctionSig (drop 7 exported_functions) @
    [ExportDefault ''Sequelize'']"

section \<open>Reading the declarations\<close>

fun members_of :: "decl \<Rightarrow> member list" where
  "members_of (Interface n es ms) = ms"
| "members_of (ClassDecl n es ms) = ms"
| "members_of (FunctionSig m) = [m]"
| "members_of d = []"

fun interface_of :: "decl \<Rightarrow> (string \<times> member list) list" where
  "interface_of (Interface n es ms) = [(n, ms)]"
| "interface_of d = []"

fun is_declaration :: "decl \<Rightarrow> bool" where
  "is_declaration (Statement s) = False"
| "is_declaration d = True"

definition all_members :: "member list" where
  "all_members = concat (map members_of sequelize_d_ts)"

definition interfaces :: "(string \<times> member list) list" where
  "interfaces = concat (map interface_of sequelize_d_ts)"

definition overloads :: "member list \<Rightarrow> string \<Rightarrow> member list" where
  "overloads ms n = filter (\<lambda>m. mname m = n \<and> mkind m = Method) ms"

definition lookup_member :: "member list \<Rightarrow> string \<Rightarrow> member option" where
  "lookup_member ms n = find (\<lambda>m. mname m = n) ms"

definition required_names :: "member list \<Rightarrow> string list" where
  "required_names ms = map mname (filter (\<lambda>m. \<not> moptional m) ms)"

definition method_names :: "(string \<times> member list) \<Rightarrow> (string \<times> string) list" where
  "method_names i = map (\<lambda>m. (fst i, mname m)) (filter (\<lambda>m. mkind m = Method) (snd i))"

fun fields_of :: "ts_type \<Rightarrow> ts_field list" where
  "fields_of (TObj fs) = fs"
| "fields_of t = []"

text \<open>The signature of a member apart from its name.\<close>

definition signature ::
  "member \<Rightarrow> member_kind \<times> bool \<times> bool \<times> (string \<times> ts_type option) list \<times> ts_param list \<times> ts_type"
  where
  "signature m = (mkind m, mstatic m, moptional m, mtparams m, mparams m, mtype m)"

fun returns_promise :: "member \<Rightarrow> bool" where
  "returns_promise m =
     (case mtype m of TRef n [t] \<Rightarrow> n = ''Promise'' | _ \<Rightarrow> False)"

subsection \<open>Names of the types a declaration mentions\<close>

fun type_names :: "ts_type \<Rightarrow> string list"
  and param_names :: "ts_param \<Rightarrow> string list"
  and field_names :: "ts_field \<Rightarrow> string list" where
  "type_names (TRef n ts) = n # concat (map type_names ts)"
| "type_names (TTypeof n) = [n]"
| "type_names (TArray t) = type_names t"
| "type_names (TTuple ts) = concat (map type_names ts)"
| "type_names (TUnion ts) = concat (map type_names ts)"
| "type_names (TFun ps r) = concat (map param_names ps) @ type_names r"
| "type_names (TObj fs) = concat (map field_names fs)"
| "type_names (TIndexed t) = type_names t"
| "type_names t = []"
| "param_names (Param n q r t) = type_names t"
| "field_names (Field n ro q t) = type_names t"

definition bound_names :: "(string \<times> ts_type option) \<Rightarrow> string list" where
  "bound_names tp = (case snd tp of None \<Rightarrow> [] | Some b \<Rightarrow> type_names b)"

definition member_type_names :: "member \<Rightarrow> string list" where
  "member_type_names m =
     concat (map bound_names (mtparams m)) @ concat (map param_names (mparams m))
       @ type_names (mtype m)"

fun decl_type_names :: "decl \<Rightarrow> string list" where
  "decl_type_names (Import p ns) = ns"
| "decl_type_names (Interface n es ms) = n # es @ concat (map member_type_names ms)"
| "decl_type_names (TypeAlias n t) = n # type_names t"
| "decl_type_names (ClassDecl n es ms) = n # es @ concat (map member_type_names ms)"
| "decl_type_names (FunctionSig m) = member_type_names m"
| "decl_type_names (ExportDefault n) = [n]"
| "decl_type_names (Statement s) = []"

fun has_infix :: "string \<Rightarrow> string \<Rightarrow> bool" where
  "has_infix p [] = (p = [])"
| "has_infix p (c # cs) = (take (length p) (c # cs) = p \<or> has_infix p cs)"

text \<open>
  An error shape is a type named as one: \<^verbatim>\<open>Error\<close> itself or a name built on it
  (\<^verbatim>\<open>ValidationError\<close>, \<^verbatim>\<open>BaseError\<close>).
\<close>

definition is_error_name :: "string \<Rightarrow> bool" where
  "is_error_name n = has_infix ''Error'' n"

subsection \<open>Which overload of \<^verbatim>\<open>query\<close> a call selects\<close>

text \<open>
  The query kinds the file names, members of the imported \<^verbatim>\<open>QueryTypes\<close>.
\<close>

datatype query_type =
  UPDATE | BULKUPDATE | INSERT | UPSERT | DELETE | BULKDELETE | SHOWTABLES | DESCRIBE
  | SELECT | RAW

fun query_type_name :: "query_type \<Rightarrow> string" where
  "query_type_name UPDATE = ''UPDATE''"
| "query_type_name BULKUPDATE = ''BULKUPDATE''"
| "query_type_name INSERT = ''INSERT''"
| "query_type_name UPSERT = ''UPSERT''"
| "query_type_name DELETE = ''DELETE''"
| "query_type_name BULKDELETE = ''BULKDELETE''"
| "query_type_name SHOWTABLES = ''SHOWTABLES''"
| "query_type_name DESCRIBE = ''DESCRIBE''"
| "query_type_name SELECT = ''SELECT''"
| "query_type_name RAW = ''RAW''"

fun union_members :: "ts_type \<Rightarrow> ts_type list" where
  "union_members (TUnion ts) = ts"
| "union_members t = [t]"

text \<open>
  A call of \<^verbatim>\<open>query\<close> is described by what it passes after the SQL: nothing (\<open>None\<close>),
  or an options argument of a declared type (\<open>Some t\<close>). TypeScript takes the first
  overload, in declaration order, that the call fits. A call without options fits an
  overload whose parameters after the first are all optional. A call with options of
  declared type \<open>t\<close> fits an overload whose second parameter has type \<open>t\<close>, alone or as
  a member of a union. The interfaces \<^verbatim>\<open>QueryOptions\<close>, \<^verbatim>\<open>QueryOptionsWithType\<close> and
  \<^verbatim>\<open>QueryOptionsWithModel\<close> are declared in another file, so the match is by the name of
  the declared type: which object literals are assignable to which of them is not
  decided here, and \<open>None\<close> as a result says only that no overload names that type.
\<close>

definition options_types :: "member \<Rightarrow> ts_type list" where
  "options_types m =
     (case mparams m of [s, p] \<Rightarrow> union_members (ptype p) | _ \<Rightarrow> [])"

definition takes_options :: "ts_type \<Rightarrow> member \<Rightarrow> bool" where
  "takes_options t m = (t \<in> set (options_types m))"

definition takes_sql_only :: "member \<Rightarrow> bool" where
  "takes_sql_only m =
     (case mparams m of [] \<Rightarrow> False | s # ps \<Rightarrow> list_all poptional ps)"

definition fits_call :: "ts_type option \<Rightarrow> member \<Rightarrow> bool" where
  "fits_call a m = (case a of None \<Rightarrow> takes_sql_only m | Some t \<Rightarrow> takes_options t m)"

definition query_overload :: "ts_type option \<Rightarrow> member option" where
  "query_overload a = find (fits_call a) (overloads Sequelize ''query'')"

definition query_result :: "ts_type option \<Rightarrow> ts_type option" where
  "query_result a = map_option mtype (query_overload a)"

text \<open>The three ways the file names the type of an options argument.\<close>

definition with_type :: "query_type \<Rightarrow> ts_type option" where
  "with_type k = Some (QueryOptionsWithType (query_type_name k))"

definition with_model :: "ts_type option" where
  "with_model = Some (TRef ''QueryOptionsWithModel'' [])"

definition plain_options :: "ts_type option" where
  "plain_options = Some (TRef ''QueryOptions'' [])"

text \<open>
  The shape the documentation comment of \<^verbatim>\<open>query\<close> describes for a call without a
  query type: a promise of a pair, the array of results first and the metadata second.
\<close>

fun results_with_metadata :: "ts_type \<Rightarrow> bool" where
  "results_with_metadata (TRef n [TTuple [TArray r, m]]) = (n = ''Promise'')"
| "results_with_metadata t = False"

subsection \<open>Which values a type admits\<close>

text \<open>
  JavaScript values by kind. The payload of a number plays no part below; integers
  stand for it.
\<close>

datatype js_value = JUndefined | JNull | JBool bool | JNum int | JStr string | JObject

text \<open>
  The typing judgement of TypeScript with strict null checks, on the types built from
  primitives, string literals and unions. A type outside that fragment (a named type
  declared elsewhere, a function type) gives \<open>None\<close>.
\<close>

fun admits :: "ts_type \<Rightarrow> js_value \<Rightarrow> bool option" where
  "admits TString v = Some (case v of JStr s \<Rightarrow> True | _ \<Rightarrow> False)"
| "admits TNumber v = Some (case v of JNum n \<Rightarrow> True | _ \<Rightarrow> False)"
| "admits TBoolean v = Some (case v of JBool b \<Rightarrow> True | _ \<Rightarrow> False)"
| "admits TUndefined v = Some (v = JUndefined)"
| "admits TVoid v = Some (v = JUndefined)"
| "admits TNull v = Some (v = JNull)"
| "admits TUnknown v = Some True"
| "admits TObject v = Some (v = JObject)"
| "admits (TLit s) v = Some (v = JStr s)"
| "admits (TUnion ts) v =
     (let rs = map (\<lambda>t. admits t v) ts
      in if None \<in> set rs then None else Some (Some True \<in> set rs))"
| "admits t v = None"

text \<open>An optional member \<^verbatim>\<open>name?: T\<close> also admits \<^verbatim>\<open>undefined\<close>.\<close>

definition member_admits :: "member list \<Rightarrow> string \<Rightarrow> js_value \<Rightarrow> bool option" where
  "member_admits ms n v =
     (case lookup_member ms n of
        None \<Rightarrow> None
      | Some m \<Rightarrow> if moptional m \<and> v = JUndefined then Some True else admits (mtype m) v)"

subsection \<open>Bodies and mentions\<close>

definition has_body :: "member \<Rightarrow> bool" where
  "has_body m = (mbody m \<noteq> None)"

definition mentions :: "string \<Rightarrow> member \<Rightarrow> bool" where
  "mentions n m = (n \<in> set (member_type_names m))"

subsection \<open>Names bound by import and names declared here\<close>

fun imported_names :: "decl \<Rightarrow> string list" where
  "imported_names (Import p ns) = ns"
| "imported_names d = []"

fun declared_names :: "decl \<Rightarrow> string list" where
  "declared_names (Interface n es ms) = [n]"
| "declared_names (TypeAlias n t) = [n]"
| "declared_names (ClassDecl n es ms) = [n]"
| "declared_names (FunctionSig m) = [mname m]"
| "declared_names d = []"

definition imported :: "string \<Rightarrow> bool" where
  "imported n = (n \<in> set (concat (map imported_names sequelize_d_ts)))"

definition declared_here :: "string \<Rightarrow> bool" where
  "declared_here n = (n \<in> set (concat (map declared_names sequelize_d_ts)))"

section \<open>Properties of the declarations\<close>

text \<open>
  A call with options selects an overload exactly when some overload names the type of
  its options argument.
\<close>

lemma named_options_types:
  "(query_result (Some t) \<noteq> None) =
     (t \<in> set (concat (map options_types (overloads Sequelize ''query''))))"
  by (auto simp add: query_result_def query_overload_def fits_call_def takes_options_def
        find_None_iff)

lemma query_options_types:
  "map Some (concat (map options_types (overloads Sequelize ''query''))) =
     [with_type UPDATE, with_type BULKUPDATE, with_type INSERT, with_type UPSERT,
      with_type DELETE, with_type BULKDELETE, with_type SHOWTABLES, with_type DESCRIBE,
      with_model, with_type SELECT, plain_options, with_type RAW]"
  by code_simp

lemma selecting_calls:
  "(query_result a \<noteq> None) =
     (a \<in> set [None, with_type UPDATE, with_type BULKUPDATE, with_type INSERT,
        with_type UPSERT, with_type DELETE, with_type BULKDELETE, with_type SHOWTABLES,
        with_type DESCRIBE, with_model, with_type SELECT, plain_options, with_type RAW])"
proof (cases a)
  case None
  have "query_result None \<noteq> None"
    by code_simp
  with None show ?thesis
    by simp
next
  case (Some t)
  have "(query_result (Some t) \<noteq> None) =
      (Some t \<in> set (map Some (concat (map options_types (overloads Sequelize ''query'')))))"
    using named_options_types [of t] by auto
  with Some show ?thesis
    unfolding query_options_types by auto
qed

text \<open>
  Claim C1, as stated, fails for a call without a query type. The last overload of
  \<^verbatim>\<open>query\<close>, the one a call without options selects, declares \<^verbatim>\<open>Promise<unknown[]>\<close>: an
  array of unknown elements, not a pair of a results array and a metadata object.
\<close>

theorem query_no_type_metadata_counterexample:
  "map_option results_with_metadata (query_result None) = Some False"
  by code_simp

text \<open>
  Claim C1, amended. The declared result of \<^verbatim>\<open>Sequelize.query\<close> is determined by the
  declared type of the options argument. Options of type
  \<^verbatim>\<open>QueryOptionsWithType<QueryTypes.K>\<close> give, for \<^verbatim>\<open>UPDATE\<close>, a promise of the pair
  \<^verbatim>\<open>[undefined, number]\<close>; for \<^verbatim>\<open>INSERT\<close>, of the pair \<^verbatim>\<open>[number, number]\<close>; for
  \<^verbatim>\<open>BULKUPDATE\<close>, \<^verbatim>\<open>BULKDELETE\<close> and \<^verbatim>\<open>UPSERT\<close>, of a number; for \<^verbatim>\<open>DELETE\<close>, of
  \<^verbatim>\<open>void\<close>; for \<^verbatim>\<open>SHOWTABLES\<close>, of an array of strings; for \<^verbatim>\<open>DESCRIBE\<close>, of a
  dictionary of column descriptions; for \<^verbatim>\<open>SELECT\<close>, of an array of \<^verbatim>\<open>T\<close> where
  \<^verbatim>\<open>T extends object\<close>. Options of type \<^verbatim>\<open>QueryOptionsWithModel\<close>, which names no query
  type, give a promise of an array of \<^verbatim>\<open>M\<close> where \<^verbatim>\<open>M extends Model\<close>. No options at
  all, options of type \<^verbatim>\<open>QueryOptions\<close> and options of type
  \<^verbatim>\<open>QueryOptionsWithType<QueryTypes.RAW>\<close> give a promise of an array of unknown values,
  and the declaration names no metadata object. These thirteen calls are all the calls
  for which an overload is declared: the twelve options types are those the eleven
  overloads name, in declaration order, and only the last overload can be called
  without options.
\<close>

theorem query_result_by_options_type:
  "query_result (with_type UPDATE) = Some (TRef ''Promise'' [TTuple [TUndefined, TNumber]])
   \<and> query_result (with_type INSERT) = Some (TRef ''Promise'' [TTuple [TNumber, TNumber]])
   \<and> query_result (with_type BULKUPDATE) = Some (TRef ''Promise'' [TNumber])
   \<and> query_result (with_type BULKDELETE) = Some (TRef ''Promise'' [TNumber])
   \<and> query_result (with_type UPSERT) = Some (TRef ''Promise'' [TNumber])
   \<and> query_result (with_type DELETE) = Some (TRef ''Promise'' [TVoid])
   \<and> query_result (with_type SHOWTABLES) = Some (TRef ''Promise'' [TArray TString])
   \<and> query_result (with_type DESCRIBE) = Some (TRef ''Promise'' [TIndexed (TObj
         [Field ''type'' False False TString,
          Field ''allowNull'' False False TBoolean,
          Field ''defaultValue'' False False TString,
          Field ''primaryKey'' False False TBoolean,
          Field ''autoIncrement'' False False TBoolean,
          Field ''comment'' False False (TUnion [TString, TNull])])])
   \<and> query_result (with_type SELECT) = Some (TRef ''Promise'' [TArray (TVar ''T'')])
   \<and> map_option mtparams (query_overload (with_type SELECT)) = Some [(''T'', Some TObject)]
   \<and> query_result with_model = Some (TRef ''Promise'' [TArray (TVar ''M'')])
   \<and> map_option mtparams (query_overload with_model) =
       Some [(''M'', Some (TRef ''Model'' []))]
   \<and> query_result (with_type RAW) = Some (TRef ''Promise'' [TArray TUnknown])
   \<and> query_result plain_options = Some (TRef ''Promise'' [TArray TUnknown])
   \<and> query_result None = Some (TRef ''Promise'' [TArray TUnknown])
   \<and> (query_result a \<noteq> None) =
       (a \<in> set [None, with_type UPDATE, with_type BULKUPDATE, with_type INSERT,
          with_type UPSERT, with_type DELETE, with_type BULKDELETE, with_type SHOWTABLES,
          with_type DESCRIBE, with_model, with_type SELECT, plain_options, with_type RAW])
   \<and> map Some (concat (map options_types (overloads Sequelize ''query''))) =
       [with_type UPDATE, with_type BULKUPDATE, with_type INSERT, with_type UPSERT,
        with_type DELETE, with_type BULKDELETE, with_type SHOWTABLES, with_type DESCRIBE,
        with_model, with_type SELECT, plain_options, with_type RAW]
   \<and> map takes_sql_only (overloads Sequelize ''query'') =
       [False, False, False, False, False, False, False, False, False, False, True]"
proof -
  have results:
    "query_result (with_type UPDATE) = Some (TRef ''Promise'' [TTuple [TUndefined, TNumber]])
     \<and> query_result (with_type INSERT) = Some (TRef ''Promise'' [TTuple [TNumber, TNumber]])
     \<and> query_result (with_type BULKUPDATE) = Some (TRef ''Promise'' [TNumber])
     \<and> query_result (with_type BULKDELETE) = Some (TRef ''Promise'' [TNumber])
     \<and> query_result (with_type UPSERT) = Some (TRef ''Promise'' [TNumber])
     \<and> query_result (with_type DELETE) = Some (TRef ''Promise'' [TVoid])
     \<and> query_result (with_type SHOWTABLES) = Some (TRef ''Promise'' [TArray TString])
     \<and> query_result (with_type DESCRIBE) = Some (TRef ''Promise'' [TIndexed (TObj
           [Field ''type'' False False TString,
            Field ''allowNull'' False False TBoolean,
            Field ''defaultValue'' False False TString,
            Field ''primaryKey'' False False TBoolean,
            Field ''autoIncrement'' False False TBoolean,
            Field ''comment'' False False (TUnion [TString, TNull])])])
     \<and> query_result (with_type SELECT) = Some (TRef ''Promise'' [TArray (TVar ''T'')])
     \<and> map_option mtparams (query_overload (with_type SELECT)) = Some [(''T'', Some TObject)]
     \<and> query_result with_model = Some (TRef ''Promise'' [TArray (TVar ''M'')])
     \<and> map_option mtparams (query_overload with_model) =
         Some [(''M'', Some (TRef ''Model'' []))]
     \<and> query_result (with_type RAW) = Some (TRef ''Promise'' [TArray TUnknown])
     \<and> query_result plain_options = Some (TRef ''Promise'' [TArray TUnknown])
     \<and> query_result None = Some (TRef ''Promise'' [TArray TUnknown])"
    by code_simp
  have arity:
    "map takes_sql_only (overloads Sequelize ''query'') =
       [False, False, False, False, False, False, False, False, False, False, True]"
    by code_simp
  from results selecting_calls [of a] query_options_types arity show ?thesis
    by blast
qed

text \<open>
  Claim C2. Every top-level item of the file is a declaration (an import, an interface,
  a type alias, the class declaration, a function signature or the default export), and
  no member of an interface or of the class and no function signature carries a body.
\<close>

theorem sequelize_d_ts_declarations_only:
  "list_all is_declaration sequelize_d_ts \<and> filter has_body all_members = []"
  by code_simp

text \<open>
  Claim C3. The members of \<^verbatim>\<open>Sequelize\<close> that return a promise are exactly the fourteen
  operations \<^verbatim>\<open>query\<close> to \<^verbatim>\<open>databaseVersion\<close>, each overload of each of them returns
  \<^verbatim>\<open>Promise\<close> of a single result type, and no declaration of the file mentions a type
  named as an error: neither a result nor a parameter has an error shape.
\<close>

theorem fallible_operations_return_promise:
  "remdups (map mname (filter returns_promise Sequelize)) =
     [''query'', ''set'', ''createSchema'', ''showAllSchemas'', ''dropSchema'',
      ''dropAllSchemas'', ''sync'', ''truncate'', ''drop'', ''authenticate'', ''validate'',
      ''transaction'', ''close'', ''databaseVersion'']
   \<and> list_all returns_promise (concat (map (overloads Sequelize)
     [''query'', ''set'', ''createSchema'', ''showAllSchemas'', ''dropSchema'',
      ''dropAllSchemas'', ''sync'', ''truncate'', ''drop'', ''authenticate'', ''validate'',
      ''transaction'', ''close'', ''databaseVersion'']))
   \<and> filter is_error_name (concat (map decl_type_names sequelize_d_ts)) = []"
  by code_simp

text \<open>
  Claim C4. \<^verbatim>\<open>transaction\<close> has exactly three overloads: options and a callback, giving
  \<^verbatim>\<open>Promise<T>\<close>; a callback alone, giving \<^verbatim>\<open>Promise<T>\<close>; optional options alone,
  giving \<^verbatim>\<open>Promise<Transaction>\<close>. The callback takes the transaction and returns
  \<^verbatim>\<open>PromiseLike<T>\<close>.
\<close>

theorem transaction_three_forms:
  "map signature (overloads Sequelize ''transaction'') =
     [(Method, False, False, [(''T'', None)],
       [Param ''options'' False False (TRef ''TransactionOptions'' []),
        Param ''autoCallback'' False False
          (TFun [Param ''t'' False False (TRef ''Transaction'' [])]
             (TRef ''PromiseLike'' [TVar ''T'']))],
       TRef ''Promise'' [TVar ''T'']),
      (Method, False, False, [(''T'', None)],
       [Param ''autoCallback'' False False
          (TFun [Param ''t'' False False (TRef ''Transaction'' [])]
             (TRef ''PromiseLike'' [TVar ''T'']))],
       TRef ''Promise'' [TVar ''T'']),
      (Method, False, False, [],
       [Param ''options'' True False (TRef ''TransactionOptions'' [])],
       TRef ''Promise'' [TRef ''Transaction'' []])]"
  by code_simp

text \<open>
  Claim C5, as stated, fails on \<^verbatim>\<open>PoolOptions\<close>: its member \<^verbatim>\<open>validate\<close> (line 86) is a
  method signature, optional, taking an optional \<^verbatim>\<open>client\<close> and returning a boolean.
\<close>

theorem PoolOptions_validate_counterexample:
  "concat (map method_names interfaces) \<noteq> []
   \<and> map signature (overloads PoolOptions ''validate'') =
       [(Method, False, True, [], [Param ''client'' True False TUnknown], TBoolean)]"
  by code_simp

text \<open>
  Claim C5, amended. Every member that \<^verbatim>\<open>Options\<close>, \<^verbatim>\<open>PoolOptions\<close>, \<^verbatim>\<open>SyncOptions\<close> and
  \<^verbatim>\<open>ConnectionOptions\<close> declare is optional; \<^verbatim>\<open>ReplicationOptions\<close> has exactly the
  required members \<^verbatim>\<open>read: ConnectionOptions[]\<close> and \<^verbatim>\<open>write: ConnectionOptions\<close>; the
  only method signature among the interfaces of the file is the optional
  \<^verbatim>\<open>PoolOptions.validate\<close>, and no member of any interface has a body.
\<close>

theorem configuration_shapes:
  "list_all moptional Options \<and> list_all moptional PoolOptions
   \<and> list_all moptional SyncOptions \<and> list_all moptional ConnectionOptions
   \<and> map signature ReplicationOptions =
       [(Property, False, False, [], [], TArray (TRef ''ConnectionOptions'' [])),
        (Property, False, False, [], [], TRef ''ConnectionOptions'' [])]
   \<and> map mname ReplicationOptions = [''read'', ''write'']
   \<and> concat (map method_names interfaces) = [(''PoolOptions'', ''validate'')]
   \<and> filter has_body (concat (map snd interfaces)) = []"
  by code_simp

text \<open>
  Claim C6. \<^verbatim>\<open>Sequelize.config\<close> is a readonly property of type \<^verbatim>\<open>Config\<close>, and the only
  member of the class that mentions \<^verbatim>\<open>Config\<close>. Every member of \<^verbatim>\<open>Config\<close> and every
  field of its nested object types is readonly. The required members are exactly
  \<^verbatim>\<open>database\<close>, \<^verbatim>\<open>username\<close>, \<^verbatim>\<open>password\<close>, \<^verbatim>\<open>protocol\<close>, \<^verbatim>\<open>native\<close>, \<^verbatim>\<open>ssl\<close>,
  \<^verbatim>\<open>replication\<close> and \<^verbatim>\<open>dialectModulePath\<close>. \<^verbatim>\<open>protocol\<close> admits the string
  \<^verbatim>\<open>'tcp'\<close> and nothing else, and \<^verbatim>\<open>password\<close> admits \<^verbatim>\<open>null\<close>.
\<close>

theorem Config_readonly_required:
  "map_option signature (lookup_member Sequelize ''config'') =
     Some (Property, False, False, [], [], TRef ''Config'' [])
   \<and> map_option mreadonly (lookup_member Sequelize ''config'') = Some True
   \<and> map mname (filter (mentions ''Config'') Sequelize) = [''config'']
   \<and> list_all mreadonly Config
   \<and> list_all freadonly (concat (map fields_of (map mtype Config)))
   \<and> required_names Config =
       [''database'', ''username'', ''password'', ''protocol'', ''native'', ''ssl'',
        ''replication'', ''dialectModulePath'']
   \<and> map_option mtype (lookup_member Config ''protocol'') = Some (TLit ''tcp'')
   \<and> (member_admits Config ''protocol'' v = Some True) = (v = JStr ''tcp'')
   \<and> map_option mtype (lookup_member Config ''password'') = Some (TUnion [TString, TNull])
   \<and> member_admits Config ''password'' JNull = Some True"
proof -
  have a: "lookup_member Config ''protocol'' = Some (ro_property ''protocol'' False (TLit ''tcp''))"
    by code_simp
  have b: "(member_admits Config ''protocol'' v = Some True) = (v = JStr ''tcp'')"
    by (simp add: member_admits_def a ro_property_def property_def)
  have c: "map_option signature (lookup_member Sequelize ''config'') =
     Some (Property, False, False, [], [], TRef ''Config'' [])
   \<and> map_option mreadonly (lookup_member Sequelize ''config'') = Some True
   \<and> map mname (filter (mentions ''Config'') Sequelize) = [''config'']
   \<and> list_all mreadonly Config
   \<and> list_all freadonly (concat (map fields_of (map mtype Config)))
   \<and> required_names Config =
       [''database'', ''username'', ''password'', ''protocol'', ''native'', ''ssl'',
        ''replication'', ''dialectModulePath'']
   \<and> map_option mtype (lookup_member Config ''protocol'') = Some (TLit ''tcp'')
   \<and> map_option mtype (lookup_member Config ''password'') = Some (TUnion [TString, TNull])
   \<and> member_admits Config ''password'' JNull = Some True"
    by code_simp
  from b c show ?thesis by blast
qed

text \<open>
  Claim C7. A value has type \<^verbatim>\<open>Dialect\<close> exactly when it is one of the strings
  \<^verbatim>\<open>mysql\<close>, \<^verbatim>\<open>postgres\<close>, \<^verbatim>\<open>sqlite\<close>, \<^verbatim>\<open>mariadb\<close> and \<^verbatim>\<open>mssql\<close>, and \<^verbatim>\<open>getDialect\<close>
  takes no argument and returns \<^verbatim>\<open>string\<close>.
\<close>

theorem Dialect_five_values:
  "(admits Dialect v = Some True) =
     (v \<in> {JStr ''mysql'', JStr ''postgres'', JStr ''sqlite'', JStr ''mariadb'', JStr ''mssql''})
   \<and> map signature (overloads Sequelize ''getDialect'') =
       [(Method, False, False, [], [], TString)]"
proof -
  have a: "(admits Dialect v = Some True) =
     (v \<in> {JStr ''mysql'', JStr ''postgres'', JStr ''sqlite'', JStr ''mariadb'', JStr ''mssql''})"
    by (auto simp add: Dialect_def)
  have b: "map signature (overloads Sequelize ''getDialect'') =
       [(Method, False, False, [], [], TString)]"
    by code_simp
  from a b show ?thesis by blast
qed

text \<open>
  Claim C8. Nothing in the file is implemented: every top-level item is a declaration
  and none of its members has a body, so the file holds no concurrency primitive, no
  scheduling and no code that owns a resource. The pool settings \<^verbatim>\<open>max\<close>, \<^verbatim>\<open>min\<close>,
  \<^verbatim>\<open>idle\<close> and \<^verbatim>\<open>acquire\<close> are optional properties of type \<^verbatim>\<open>number\<close>, and
  \<^verbatim>\<open>PoolOptions\<close> is used only as the type of the option \<^verbatim>\<open>pool\<close>. The types that carry
  pooling and the transaction lifecycle, \<^verbatim>\<open>ConnectionManager\<close>, \<^verbatim>\<open>Transaction\<close>,
  \<^verbatim>\<open>TransactionOptions\<close> and \<^verbatim>\<open>Promise\<close>, are bound by imports from other modules and not
  declared here; the file touches them only in the readonly property
  \<^verbatim>\<open>connectionManager\<close> and, for the transaction types, in the three signatures of
  \<^verbatim>\<open>transaction\<close>.
\<close>

theorem pooling_and_lifecycle_not_implemented:
  "list_all is_declaration sequelize_d_ts
   \<and> filter has_body all_members = []
   \<and> map_option signature (lookup_member PoolOptions ''max'') =
       Some (Property, False, True, [], [], TNumber)
   \<and> map_option signature (lookup_member PoolOptions ''min'') =
       Some (Property, False, True, [], [], TNumber)
   \<and> map_option signature (lookup_member PoolOptions ''idle'') =
       Some (Property, False, True, [], [], TNumber)
   \<and> map_option signature (lookup_member PoolOptions ''acquire'') =
       Some (Property, False, True, [], [], TNumber)
   \<and> map mname (filter (mentions ''PoolOptions'') all_members) = [''pool'']
   \<and> list_all imported
       [''ConnectionManager'', ''Transaction'', ''TransactionOptions'', ''Promise'']
   \<and> filter declared_here
       [''ConnectionManager'', ''Transaction'', ''TransactionOptions'', ''Promise''] = []
   \<and> map mname (filter (mentions ''ConnectionManager'') all_members) =
       [''connectionManager'']
   \<and> map_option mreadonly (lookup_member Sequelize ''connectionManager'') = Some True
   \<and> map mname (filter (mentions ''Transaction'') all_members) =
       [''transaction'', ''transaction'', ''transaction'']
   \<and> map mname (filter (mentions ''TransactionOptions'') all_members) =
       [''transaction'', ''transaction'']"
  by code_simp

text \<open>
  Claim C9. \<^verbatim>\<open>validate\<close> and \<^verbatim>\<open>authenticate\<close> are declared with the same signature,
  \<^verbatim>\<open>(options?: QueryOptions) => Promise<void>\<close>, one overload each.
\<close>

theorem validate_same_as_authenticate:
  "map signature (overloads Sequelize ''validate'') =
     map signature (overloads Sequelize ''authenticate'')
   \<and> map signature (overloads Sequelize ''validate'') =
     [(Method, False, False, [], [Param ''options'' True False (TRef ''QueryOptions'' [])],
       TRef ''Promise'' [TVoid])]"
  by code_simp

text \<open>
  Claim C10. \<^verbatim>\<open>port\<close> is \<^verbatim>\<open>string | number\<close> in \<^verbatim>\<open>ConnectionOptions\<close>, \<^verbatim>\<open>number\<close> in
  \<^verbatim>\<open>Options\<close> and \<^verbatim>\<open>string\<close> in \<^verbatim>\<open>Config\<close>. So every number is admitted as
  \<^verbatim>\<open>Options.port\<close> and refused as \<^verbatim>\<open>Config.port\<close>, while \<^verbatim>\<open>ConnectionOptions.port\<close>
  admits numbers and strings alike.
\<close>

theorem port_types_differ:
  "map_option mtype (lookup_member ConnectionOptions ''port'') = Some (TUnion [TString, TNumber])
   \<and> map_option mtype (lookup_member Options ''port'') = Some TNumber
   \<and> map_option mtype (lookup_member Config ''port'') = Some TString
   \<and> member_admits Options ''port'' (JNum n) = Some True
   \<and> member_admits Config ''port'' (JNum n) = Some False
   \<and> member_admits ConnectionOptions ''port'' (JNum n) = Some True
   \<and> member_admits ConnectionOptions ''port'' (JStr s) = Some True"
proof -
  have a: "lookup_member ConnectionOptions ''port'' = Some (property ''port'' True (TUnion [TString, TNumber]))"
    by code_simp
  have b: "lookup_member Options ''port'' = Some (property ''port'' True TNumber)"
    by code_simp
  have c: "lookup_member Config ''port'' = Some (ro_property ''port'' True TString)"
    by code_simp
  show ?thesis
    by (simp add: member_admits_def a b c ro_property_def property_def)
qed

end
